theory Spec2Isabelle
  imports Main
begin

section \<open>The Employee entity\<close>

text \<open>
  Modelled from the spec: \<^verbatim>\<open>models.py\<close> (the class \<^verbatim>\<open>Employee\<close> that \<^verbatim>\<open>main.py\<close>
  imports) is not among the sources. The spec gives the entity three attributes: an
  integer \<^verbatim>\<open>id\<close> that a create payload may omit, a text \<^verbatim>\<open>name\<close> and a text
  \<^verbatim>\<open>department\<close>. The field \<^verbatim>\<open>id\<close> is written \<open>eid\<close>, since \<open>id\<close> is HOL's identity
  function.
\<close>

record employee =
  eid :: "int option"
  name :: string
  department :: string

section \<open>The database module, as main.py sees it\<close>

text \<open>
  Modelled from the spec: \<^verbatim>\<open>database.py\<close> is not among the sources. \<^verbatim>\<open>main.py\<close> uses the
  module through six functions, so the router below takes the module as a parameter: a
  record of six operations on a store state \<open>'s\<close>. A Python call either returns a value or
  raises, and may change the store in both cases, so an operation maps the state to an
  outcome (\<open>Inl\<close> an exception \<open>'x\<close> raised inside the module, \<open>Inr\<close> the value returned)
  and the state it leaves. \<^verbatim>\<open>get_employee\<close> returns \<^verbatim>\<open>None\<close> or a record; the results of
  \<^verbatim>\<open>delete_employee\<close> and \<^verbatim>\<open>update_employee\<close> are the booleans the spec gives them.
  The two fields whose names the handlers of \<^verbatim>\<open>main.py\<close> also carry are prefixed.
\<close>

record ('s, 'x) database =
  create_table :: "'s \<Rightarrow> ('x + unit) \<times> 's"
  get_employees :: "int \<Rightarrow> int \<Rightarrow> 's \<Rightarrow> ('x + employee list) \<times> 's"
  get_employee :: "int \<Rightarrow> 's \<Rightarrow> ('x + employee option) \<times> 's"
  insert_employee :: "employee \<Rightarrow> 's \<Rightarrow> ('x + employee) \<times> 's"
  database_delete_employee :: "int \<Rightarrow> 's \<Rightarrow> ('x + bool) \<times> 's"
  database_update_employee :: "int \<Rightarrow> string \<Rightarrow> string \<Rightarrow> 's \<Rightarrow> ('x + bool) \<times> 's"

section \<open>The handlers of main.py\<close>

text \<open>
  What a handler can raise: the \<^verbatim>\<open>HTTPException(status_code, detail)\<close> it raises itself,
  or an exception of the database module, which no handler catches.
\<close>

datatype 'x exn = HTTPException int string | Raised 'x

text \<open>
  Every handler makes one call into the database module and then works on the value
  returned; an exception of the call leaves the handler at once.
\<close>

definition call :: "('x + 'a) \<times> 's \<Rightarrow> ('a \<Rightarrow> 'x exn + 'b) \<Rightarrow> ('x exn + 'b) \<times> 's" where
  "call r k = (case r of (Inl e, s') \<Rightarrow> (Inl (Raised e), s') | (Inr a, s') \<Rightarrow> (k a, s'))"

definition startup_event :: "('s, 'x) database \<Rightarrow> 's \<Rightarrow> ('x exn + unit) \<times> 's" where
  "startup_event db s = call (create_table db s) (\<lambda>_. Inr ())"

text \<open>A query parameter left out of the request is \<open>None\<close>; the defaults are the signature's.\<close>

definition read_employees ::
  "('s, 'x) database \<Rightarrow> int option \<Rightarrow> int option \<Rightarrow> 's \<Rightarrow> ('x exn + employee list) \<times> 's" where
  "read_employees db skip limit s =
     (let skip = (case skip of None \<Rightarrow> 0 | Some k \<Rightarrow> k);
          limit = (case limit of None \<Rightarrow> 10 | Some k \<Rightarrow> k)
      in call (get_employees db skip limit s) Inr)"

definition read_employee :: "('s, 'x) database \<Rightarrow> int \<Rightarrow> 's \<Rightarrow> ('x exn + employee) \<times> 's" where
  "read_employee db employee_id s =
     call (get_employee db employee_id s)
       (\<lambda>employee. case employee of
            None \<Rightarrow> Inl (HTTPException 404 ''Employee not found'')
          | Some e \<Rightarrow> Inr e)"

definition create_employee :: "('s, 'x) database \<Rightarrow> employee \<Rightarrow> 's \<Rightarrow> ('x exn + employee) \<times> 's" where
  "create_employee db employee s = call (insert_employee db employee s) Inr"

definition delete_employee ::
  "('s, 'x) database \<Rightarrow> int \<Rightarrow> 's \<Rightarrow> ('x exn + (string \<times> string) list) \<times> 's" where
  "delete_employee db employee_id s =
     call (database_delete_employee db employee_id s)
       (\<lambda>deleted. if \<not> deleted then Inl (HTTPException 404 ''Employee not found'')
                  else Inr [(''message'', ''Employee deleted'')])"

definition update_employee ::
  "('s, 'x) database \<Rightarrow> int \<Rightarrow> string \<Rightarrow> string \<Rightarrow> 's \<Rightarrow> ('x exn + (string \<times> string) list) \<times> 's" where
  "update_employee db employee_id column new_value s =
     call (database_update_employee db employee_id column new_value s)
       (\<lambda>updated. if \<not> updated then Inl (HTTPException 404 ''Employee not found'')
                  else Inr [(''message'', ''Employee updated'')])"

section \<open>The routes\<close>

text \<open>
  The decorators of \<^verbatim>\<open>main.py\<close> register one handler per method and path. A request is
  what the framework hands to a handler once the path and the query are parsed; the
  typed parameters (\<^verbatim>\<open>employee_id: int\<close>) are already integers here.
\<close>

datatype request =
    GET_employees "int option" "int option"
  | GET_employee int
  | POST_employees employee
  | DELETE_employee int
  | PUT_employee int string string

datatype content =
    Employees "employee list"
  | Employee employee
  | Object "(string \<times> string) list"
  | Text string

datatype response = Response int content

text \<open>
  What the framework makes of a handler's outcome: a returned value is the body of a 200
  response, an \<^verbatim>\<open>HTTPException\<close> is its status code with the body \<^verbatim>\<open>{"detail": detail}\<close>,
  and any other exception is a 500. The \<^verbatim>\<open>response_model\<close> of a route names the type of
  the body; a returned Employee is taken to pass through it unchanged.
\<close>

definition respond :: "('a \<Rightarrow> content) \<Rightarrow> ('x exn + 'a) \<Rightarrow> response" where
  "respond enc r =
     (case r of
        Inr v \<Rightarrow> Response 200 (enc v)
      | Inl (HTTPException code detail) \<Rightarrow> Response code (Object [(''detail'', detail)])
      | Inl (Raised e) \<Rightarrow> Response 500 (Text ''Internal Server Error''))"

definition app :: "('s, 'x) database \<Rightarrow> request \<Rightarrow> 's \<Rightarrow> response \<times> 's" where
  "app db rq s =
     (case rq of
        GET_employees skip limit \<Rightarrow> apfst (respond Employees) (read_employees db skip limit s)
      | GET_employee employee_id \<Rightarrow> apfst (respond Employee) (read_employee db employee_id s)
      | POST_employees employee \<Rightarrow> apfst (respond Employee) (create_employee db employee s)
      | DELETE_employee employee_id \<Rightarrow> apfst (respond Object) (delete_employee db employee_id s)
      | PUT_employee employee_id column new_value \<Rightarrow>
          apfst (respond Object) (update_employee db employee_id column new_value s))"

section \<open>Observing the calls into the database module\<close>

text \<open>
  To state which call a handler makes, and with which arguments, a database module is
  wrapped so that every operation also appends its own call to a log kept beside the
  store. The wrapper changes neither results nor store.
\<close>

datatype db_call =
    CreateTable
  | GetEmployees int int
  | GetEmployee int
  | InsertEmployee employee
  | DeleteEmployee int
  | UpdateEmployee int string string

definition logged :: "db_call \<Rightarrow> ('s \<Rightarrow> 'r \<times> 's) \<Rightarrow> 's \<times> db_call list \<Rightarrow> 'r \<times> 's \<times> db_call list" where
  "logged c f = (\<lambda>(s, log). case f s of (r, s') \<Rightarrow> (r, s', log @ [c]))"

definition traced :: "('s, 'x) database \<Rightarrow> ('s \<times> db_call list, 'x) database" where
  "traced db =
     \<lparr> create_table = logged CreateTable (create_table db),
       get_employees = (\<lambda>skip limit. logged (GetEmployees skip limit) (get_employees db skip limit)),
       get_employee = (\<lambda>i. logged (GetEmployee i) (get_employee db i)),
       insert_employee = (\<lambda>e. logged (InsertEmployee e) (insert_employee db e)),
       database_delete_employee = (\<lambda>i. logged (DeleteEmployee i) (database_delete_employee db i)),
       database_update_employee =
         (\<lambda>i column v. logged (UpdateEmployee i column v) (database_update_employee db i column v)) \<rparr>"

section \<open>The life of the process\<close>

text \<open>
  \<^verbatim>\<open>main.py\<close> registers one lifecycle hook, \<^verbatim>\<open>startup_event\<close> on "startup", and none on
  "shutdown". The framework runs the startup hook once before it serves the first
  request, and serves nothing when the hook raises. Requests are served one after the
  other, each on the store the one before left.
\<close>

fun serve :: "('s, 'x) database \<Rightarrow> request list \<Rightarrow> 's \<Rightarrow> response list \<times> 's" where
  "serve db [] s = ([], s)"
| "serve db (rq # rqs) s =
     (case app db rq s of (r, s') \<Rightarrow>
        (case serve db rqs s' of (rs, s'') \<Rightarrow> (r # rs, s'')))"

definition run :: "('s, 'x) database \<Rightarrow> request list \<Rightarrow> 's \<Rightarrow> ('x exn + response list) \<times> 's" where
  "run db rqs s =
     (case startup_event db s of
        (Inl e, s') \<Rightarrow> (Inl e, s')
      | (Inr u, s') \<Rightarrow> apfst Inr (serve db rqs s'))"

text \<open>
  The call into the database module that the spec's table of operations gives each
  request. It is used only to state what a run's log holds.
\<close>

fun call_of :: "request \<Rightarrow> db_call" where
  "call_of (GET_employees skip limit) =
     GetEmployees (case skip of None \<Rightarrow> 0 | Some k \<Rightarrow> k) (case limit of None \<Rightarrow> 10 | Some k \<Rightarrow> k)"
| "call_of (GET_employee i) = GetEmployee i"
| "call_of (POST_employees e) = InsertEmployee e"
| "call_of (DELETE_employee i) = DeleteEmployee i"
| "call_of (PUT_employee i column v) = UpdateEmployee i column v"

text \<open>The id a request is about, for the three operations that name one.\<close>

fun target :: "request \<Rightarrow> int option" where
  "target (GET_employee i) = Some i"
| "target (DELETE_employee i) = Some i"
| "target (PUT_employee i column v) = Some i"
| "target rq = None"

section \<open>The Data Store of the spec\<close>

text \<open>
  Modelled from the spec: \<^verbatim>\<open>database.py\<close> is not among the sources, so the six operations
  are written from section 4.1 of the spec. The store is the employee table, or nothing
  before \<^verbatim>\<open>create_table\<close> has run. A table holds its rows in primary-key order and the
  next id to assign: ids are assigned in increasing order from 1 and never reused.
  The spec leaves open what an operation does without a table and what an update of a
  column other than \<^verbatim>\<open>name\<close> or \<^verbatim>\<open>department\<close> does; here both are storage faults, which
  the spec lets pass to the caller as they are. For a negative \<^verbatim>\<open>skip\<close> or \<^verbatim>\<open>limit\<close>,
  which the spec leaves to the query engine, nothing is skipped or returned. The theorems
  on this store are stated for an existing table and a \<^verbatim>\<open>limit\<close> that is not negative;
  the only one that reaches the open cases is the last part of C5, where a fault is a
  500 and so not a 404.
\<close>

record table =
  rows :: "employee list"
  next_id :: int

datatype fault = NoSuchTable | NoSuchColumn string

definition has_id :: "int \<Rightarrow> employee \<Rightarrow> bool" where
  "has_id i e = (eid e = Some i)"

definition with_table :: "table option \<Rightarrow> (table \<Rightarrow> 'a \<times> table) \<Rightarrow> (fault + 'a) \<times> table option" where
  "with_table s f =
     (case s of
        None \<Rightarrow> (Inl NoSuchTable, None)
      | Some t \<Rightarrow> (case f t of (a, t') \<Rightarrow> (Inr a, Some t')))"

definition spec_create_table :: "table option \<Rightarrow> (fault + unit) \<times> table option" where
  "spec_create_table s =
     (Inr (), (case s of None \<Rightarrow> Some \<lparr>rows = [], next_id = 1\<rparr> | Some t \<Rightarrow> Some t))"

definition spec_get_employees ::
  "int \<Rightarrow> int \<Rightarrow> table option \<Rightarrow> (fault + employee list) \<times> table option" where
  "spec_get_employees skip limit s =
     with_table s (\<lambda>t. (take (nat limit) (drop (nat skip) (rows t)), t))"

definition spec_get_employee :: "int \<Rightarrow> table option \<Rightarrow> (fault + employee option) \<times> table option" where
  "spec_get_employee i s = with_table s (\<lambda>t. (find (has_id i) (rows t), t))"

definition spec_insert_employee :: "employee \<Rightarrow> table option \<Rightarrow> (fault + employee) \<times> table option" where
  "spec_insert_employee e s =
     with_table s (\<lambda>t. (e\<lparr>eid := Some (next_id t)\<rparr>,
                         \<lparr>rows = rows t @ [e\<lparr>eid := Some (next_id t)\<rparr>], next_id = next_id t + 1\<rparr>))"

definition spec_delete_employee :: "int \<Rightarrow> table option \<Rightarrow> (fault + bool) \<times> table option" where
  "spec_delete_employee i s =
     with_table s (\<lambda>t. (list_ex (has_id i) (rows t),
                         t\<lparr>rows := filter (\<lambda>e. \<not> has_id i e) (rows t)\<rparr>))"

definition set_column :: "int \<Rightarrow> (employee \<Rightarrow> employee) \<Rightarrow> table \<Rightarrow> bool \<times> table" where
  "set_column i f t =
     (list_ex (has_id i) (rows t), t\<lparr>rows := map (\<lambda>e. if has_id i e then f e else e) (rows t)\<rparr>)"

definition spec_update_employee ::
  "int \<Rightarrow> string \<Rightarrow> string \<Rightarrow> table option \<Rightarrow> (fault + bool) \<times> table option" where
  "spec_update_employee i column new_value s =
     (if column = ''name'' then with_table s (set_column i (\<lambda>e. e\<lparr>name := new_value\<rparr>))
      else if column = ''department'' then with_table s (set_column i (\<lambda>e. e\<lparr>department := new_value\<rparr>))
      else (Inl (NoSuchColumn column), s))"

definition database_spec :: "(table option, fault) database" where
  "database_spec =
     \<lparr> create_table = spec_create_table,
       get_employees = spec_get_employees,
       get_employee = spec_get_employee,
       insert_employee = spec_insert_employee,
       database_delete_employee = spec_delete_employee,
       database_update_employee = spec_update_employee \<rparr>"

section \<open>Auxiliary facts\<close>

lemma traced_simps:
  "create_table (traced db) = logged CreateTable (create_table db)"
  "get_employees (traced db) skip limit = logged (GetEmployees skip limit) (get_employees db skip limit)"
  "get_employee (traced db) i = logged (GetEmployee i) (get_employee db i)"
  "insert_employee (traced db) e = logged (InsertEmployee e) (insert_employee db e)"
  "database_delete_employee (traced db) i = logged (DeleteEmployee i) (database_delete_employee db i)"
  "database_update_employee (traced db) i column v
     = logged (UpdateEmployee i column v) (database_update_employee db i column v)"
  by (simp_all add: traced_def)

lemma database_spec_simps:
  "create_table database_spec = spec_create_table"
  "get_employees database_spec = spec_get_employees"
  "get_employee database_spec = spec_get_employee"
  "insert_employee database_spec = spec_insert_employee"
  "database_delete_employee database_spec = spec_delete_employee"
  "database_update_employee database_spec = spec_update_employee"
  by (simp_all add: database_spec_def)

lemma find_after_filter: "find P (filter (\<lambda>x. \<not> P x) xs) = None"
  by (induction xs) auto

lemma find_after_map:
  "(\<And>x. P (f x) = P x) \<Longrightarrow> find P (map f xs) = map_option f (find P xs)"
  by (induction xs) auto

lemma list_ex_find: "list_ex P xs = (find P xs \<noteq> None)"
  by (induction xs) auto

lemma app_traced_log:
  "snd (snd (app (traced db) rq (s, log))) = log @ [call_of rq]"
  by (cases rq)
     (auto simp: app_def read_employees_def read_employee_def create_employee_def
                 delete_employee_def update_employee_def call_def traced_simps logged_def
           split: prod.splits sum.splits option.splits)

lemma serve_traced_log:
  "snd (snd (serve (traced db) rqs (s, log))) = log @ map call_of rqs"
proof (induction rqs arbitrary: s log)
  case Nil
  show ?case by simp
next
  case (Cons rq rqs)
  obtain r s' log' where step: "app (traced db) rq (s, log) = (r, s', log')"
    by (metis prod_cases3)
  have "log' = log @ [call_of rq]"
    using app_traced_log [of db rq s log] step by simp
  then show ?case
    using Cons.IH [of s' log'] step by (auto split: prod.splits)
qed

lemma find_has_id: "find (has_id i) xs = Some e \<Longrightarrow> has_id i e"
  by (induction xs) (auto split: if_splits)

lemma find_set_column:
  "(\<And>x. eid (f x) = eid x) \<Longrightarrow>
   find (has_id j) (map (\<lambda>e. if has_id i e then f e else e) xs)
     = map_option (\<lambda>e. if has_id i e then f e else e) (find (has_id j) xs)"
  by (rule find_after_map) (simp add: has_id_def)

lemma find_set_column_other:
  assumes "\<And>x. eid (f x) = eid x" and "j \<noteq> i"
  shows "find (has_id j) (map (\<lambda>e. if has_id i e then f e else e) xs) = find (has_id j) xs"
proof (cases "find (has_id j) xs")
  case None
  then show ?thesis using find_set_column [OF assms(1), of j i xs] by simp
next
  case (Some e)
  then have "has_id j e" by (rule find_has_id)
  then have "\<not> has_id i e" using assms(2) by (simp add: has_id_def)
  then show ?thesis using Some find_set_column [OF assms(1), of j i xs] by simp
qed

lemma app_spec_keeps_table: "\<exists>r t'. app database_spec rq (Some t) = (r, Some t')"
  by (cases rq)
     (auto simp: app_def read_employees_def read_employee_def create_employee_def
                 delete_employee_def update_employee_def call_def database_spec_simps
                 spec_get_employees_def spec_get_employee_def spec_insert_employee_def
                 spec_delete_employee_def spec_update_employee_def with_table_def set_column_def
           split: option.splits)

lemma serve_spec_keeps_table:
  "\<exists>rs t'. serve database_spec rqs (Some t) = (rs, Some t') \<and> length rs = length rqs"
proof (induction rqs arbitrary: t)
  case Nil
  show ?case by simp
next
  case (Cons rq rqs)
  obtain r t1 where step: "app database_spec rq (Some t) = (r, Some t1)"
    using app_spec_keeps_table by blast
  obtain rs t2 where rest: "serve database_spec rqs (Some t1) = (rs, Some t2)" "length rs = length rqs"
    using Cons.IH by blast
  show ?case using step rest by simp
qed

section \<open>Get one\<close>

text \<open>
  C2. For every id, every database module and every store state, the get-one handler
  returns the record (HTTP 200 with the Employee as body) exactly when
  \<^verbatim>\<open>database.get_employee(id)\<close> returns that record, and raises the HTTP 404 error with
  detail "Employee not found" exactly when it returns \<^verbatim>\<open>None\<close>. The only other exception
  that leaves the handler is one raised inside the database call itself, so an absent
  row is never surfaced as anything but the 404. The handler leaves the store as the
  call left it.
\<close>

theorem read_employee_outcome:
  "(fst (read_employee db i s) = Inr e) = (fst (get_employee db i s) = Inr (Some e))
   \<and> (fst (read_employee db i s) = Inl (HTTPException 404 ''Employee not found''))
       = (fst (get_employee db i s) = Inr None)
   \<and> (fst (read_employee db i s) = Inl (HTTPException c d))
       = (fst (get_employee db i s) = Inr None \<and> c = 404 \<and> d = ''Employee not found'')
   \<and> (fst (read_employee db i s) = Inl (Raised x)) = (fst (get_employee db i s) = Inl x)
   \<and> (fst (app db (GET_employee i) s) = Response 200 (Employee e))
       = (fst (get_employee db i s) = Inr (Some e))
   \<and> (fst (app db (GET_employee i) s) = Response 404 (Object [(''detail'', ''Employee not found'')]))
       = (fst (get_employee db i s) = Inr None)
   \<and> snd (read_employee db i s) = snd (get_employee db i s)"
  by (cases "get_employee db i s")
     (auto simp: read_employee_def app_def respond_def call_def split: sum.splits option.splits)


section \<open>Delete and update\<close>

text \<open>
  C3. For every id, every database module and every store state, the delete handler
  returns \<^verbatim>\<open>{"message": "Employee deleted"}\<close> (HTTP 200 with that body) exactly when
  \<^verbatim>\<open>database.delete_employee(id)\<close> returns true, and raises the HTTP 404 error with detail
  "Employee not found" exactly when it returns false. The handler raises no other
  HTTP error, and the only other exception that leaves it is one raised inside the
  database call itself.
\<close>

theorem delete_employee_outcome:
  "(fst (delete_employee db i s) = Inr [(''message'', ''Employee deleted'')])
       = (fst (database_delete_employee db i s) = Inr True)
   \<and> (fst (delete_employee db i s) = Inr body)
       = (fst (database_delete_employee db i s) = Inr True \<and> body = [(''message'', ''Employee deleted'')])
   \<and> (fst (delete_employee db i s) = Inl (HTTPException 404 ''Employee not found''))
       = (fst (database_delete_employee db i s) = Inr False)
   \<and> (fst (delete_employee db i s) = Inl (HTTPException c d))
       = (fst (database_delete_employee db i s) = Inr False \<and> c = 404 \<and> d = ''Employee not found'')
   \<and> (fst (delete_employee db i s) = Inl (Raised x)) = (fst (database_delete_employee db i s) = Inl x)
   \<and> (fst (app db (DELETE_employee i) s) = Response 200 (Object [(''message'', ''Employee deleted'')]))
       = (fst (database_delete_employee db i s) = Inr True)
   \<and> (fst (app db (DELETE_employee i) s) = Response 404 (Object [(''detail'', ''Employee not found'')]))
       = (fst (database_delete_employee db i s) = Inr False)
   \<and> snd (delete_employee db i s) = snd (database_delete_employee db i s)"
  by (cases "database_delete_employee db i s")
     (auto simp: delete_employee_def app_def respond_def call_def split: sum.splits)

text \<open>
  C4. For every id, column and new value, every database module and every store state,
  the update handler returns \<^verbatim>\<open>{"message": "Employee updated"}\<close> (HTTP 200 with that body)
  exactly when \<^verbatim>\<open>database.update_employee(id, column, new_value)\<close> returns true, and raises
  the HTTP 404 error with detail "Employee not found" exactly when it returns false.
\<close>

theorem update_employee_outcome:
  "(fst (update_employee db i column v s) = Inr [(''message'', ''Employee updated'')])
       = (fst (database_update_employee db i column v s) = Inr True)
   \<and> (fst (update_employee db i column v s) = Inr body)
       = (fst (database_update_employee db i column v s) = Inr True
          \<and> body = [(''message'', ''Employee updated'')])
   \<and> (fst (update_employee db i column v s) = Inl (HTTPException 404 ''Employee not found''))
       = (fst (database_update_employee db i column v s) = Inr False)
   \<and> (fst (update_employee db i column v s) = Inl (HTTPException c d))
       = (fst (database_update_employee db i column v s) = Inr False
          \<and> c = 404 \<and> d = ''Employee not found'')
   \<and> (fst (update_employee db i column v s) = Inl (Raised x))
       = (fst (database_update_employee db i column v s) = Inl x)
   \<and> (fst (app db (PUT_employee i column v) s) = Response 200 (Object [(''message'', ''Employee updated'')]))
       = (fst (database_update_employee db i column v s) = Inr True)
   \<and> (fst (app db (PUT_employee i column v) s) = Response 404 (Object [(''detail'', ''Employee not found'')]))
       = (fst (database_update_employee db i column v s) = Inr False)
   \<and> snd (update_employee db i column v s) = snd (database_update_employee db i column v s)"
  by (cases "database_update_employee db i column v s")
     (auto simp: update_employee_def app_def respond_def call_def split: sum.splits)

section \<open>Create\<close>

text \<open>
  C10. For every Employee payload, with or without a client-supplied id, the create
  handler makes exactly one call into the database module, \<^verbatim>\<open>insert_employee\<close> with the
  payload unchanged, and its outcome is the outcome of that call unchanged: the value
  returned is the handler's return value and the body of the HTTP 200 response. The
  router strips, checks and transforms nothing; whatever happens to a client-supplied
  id happens inside \<^verbatim>\<open>insert_employee\<close>.
\<close>

theorem create_employee_verbatim:
  "snd (snd (create_employee (traced db) employee (s, log))) = log @ [InsertEmployee employee]
   \<and> fst (snd (create_employee (traced db) employee (s, log))) = snd (insert_employee db employee s)
   \<and> fst (create_employee (traced db) employee (s, log))
       = (case fst (insert_employee db employee s) of Inl x \<Rightarrow> Inl (Raised x) | Inr r \<Rightarrow> Inr r)
   \<and> fst (create_employee db employee s)
       = (case fst (insert_employee db employee s) of Inl x \<Rightarrow> Inl (Raised x) | Inr r \<Rightarrow> Inr r)
   \<and> snd (create_employee db employee s) = snd (insert_employee db employee s)
   \<and> fst (app db (POST_employees employee) s)
       = (case fst (insert_employee db employee s) of
            Inl x \<Rightarrow> Response 500 (Text ''Internal Server Error'')
          | Inr r \<Rightarrow> Response 200 (Employee r))"
  by (cases "insert_employee db employee s")
     (auto simp: create_employee_def traced_def logged_def app_def respond_def call_def
           split: sum.splits)

section \<open>The column of an update\<close>

text \<open>
  What the update handler does with \<^verbatim>\<open>column\<close>, for every database module: it makes the
  one call \<^verbatim>\<open>update_employee(id, column, new_value)\<close> with its three arguments unchanged,
  whatever string the column is, and its outcome is decided by the result of that call
  alone. No check of the column stands between the request and the call.
\<close>

lemma update_employee_forwards_any_column:
  "snd (snd (update_employee (traced db) i column v (s, log))) = log @ [UpdateEmployee i column v]
   \<and> snd (snd (app (traced db) (PUT_employee i column v) (s, log))) = log @ [UpdateEmployee i column v]
   \<and> fst (snd (update_employee (traced db) i column v (s, log)))
       = snd (database_update_employee db i column v s)
   \<and> fst (update_employee (traced db) i column v (s, log))
       = (case fst (database_update_employee db i column v s) of
            Inl x \<Rightarrow> Inl (Raised x)
          | Inr updated \<Rightarrow> if updated then Inr [(''message'', ''Employee updated'')]
                           else Inl (HTTPException 404 ''Employee not found''))"
  by (cases "database_update_employee db i column v s")
     (auto simp: app_def update_employee_def call_def traced_simps logged_def split: sum.splits)

text \<open>
  C1. The claim is that the router lets an update through only when its column is
  \<^verbatim>\<open>name\<close> or \<^verbatim>\<open>department\<close>, and that a request with any other column does not reach
  the update operation of the database module. The docstring of \<^verbatim>\<open>update_employee\<close> says
  the same of the parameter ("The name of the column to update ('name' or
  'department')"), but the handler has no such check. The code at two requests that the
  claim says are rejected: \<^verbatim>\<open>PUT /employees/1/salary/x\<close> and \<^verbatim>\<open>PUT /employees/1/id/7\<close>
  each reach the database module as the call \<^verbatim>\<open>update_employee\<close> with the column
  unchanged.
\<close>

theorem update_employee_unknown_column_reaches_store:
  "''salary'' \<noteq> ''name'' \<and> ''salary'' \<noteq> ''department''
   \<and> snd (snd (app (traced database_spec) (PUT_employee 1 ''salary'' ''x'')
        (Some \<lparr>rows = [\<lparr>eid = Some 1, name = ''Ann'', department = ''Eng''\<rparr>], next_id = 2\<rparr>, [])))
     = [UpdateEmployee 1 ''salary'' ''x'']
   \<and> ''id'' \<noteq> ''name'' \<and> ''id'' \<noteq> ''department''
   \<and> snd (snd (app (traced database_spec) (PUT_employee 1 ''id'' ''7'')
        (Some \<lparr>rows = [\<lparr>eid = Some 1, name = ''Ann'', department = ''Eng''\<rparr>], next_id = 2\<rparr>, [])))
     = [UpdateEmployee 1 ''id'' ''7'']"
  by (simp add: app_def update_employee_def call_def traced_simps logged_def database_spec_simps
        spec_update_employee_def)

section \<open>The one error kind\<close>

text \<open>
  C5. The list and create handlers never raise an HTTP error themselves. The get-one,
  delete and update handlers raise one HTTP error only, the 404 with the fixed detail
  "Employee not found", and only when the database call reported the row absent
  (\<^verbatim>\<open>None\<close>, false). So a 404 response comes from one of these three requests and carries
  that detail, and every response is a 200, that 404 or a 500. On the Data Store of the
  spec a 404 is answered only when the table holds no row with the request's id.
\<close>

theorem not_found_is_the_only_http_error:
  "fst (read_employees db skip limit s) \<noteq> Inl (HTTPException c d)
   \<and> fst (create_employee db employee s) \<noteq> Inl (HTTPException c d)
   \<and> (fst (read_employee db i s) = Inl (HTTPException c d)
        \<longrightarrow> c = 404 \<and> d = ''Employee not found'' \<and> fst (get_employee db i s) = Inr None)
   \<and> (fst (delete_employee db i s) = Inl (HTTPException c d)
        \<longrightarrow> c = 404 \<and> d = ''Employee not found''
            \<and> fst (database_delete_employee db i s) = Inr False)
   \<and> (fst (update_employee db i column v s) = Inl (HTTPException c d)
        \<longrightarrow> c = 404 \<and> d = ''Employee not found''
            \<and> fst (database_update_employee db i column v s) = Inr False)
   \<and> (fst (app db rq s) = Response 404 b
        \<longrightarrow> b = Object [(''detail'', ''Employee not found'')] \<and> target rq \<noteq> None)
   \<and> (\<exists>b. fst (app db rq s) = Response 200 b \<or> fst (app db rq s) = Response 404 b
            \<or> fst (app db rq s) = Response 500 b)
   \<and> (fst (app database_spec rq st) = Response 404 b
        \<longrightarrow> (\<exists>i t. target rq = Some i \<and> st = Some t \<and> \<not> list_ex (has_id i) (rows t)))"
  apply (intro conjI)
  subgoal
    by (cases "get_employees db (case skip of None \<Rightarrow> 0 | Some k \<Rightarrow> k)
                 (case limit of None \<Rightarrow> 10 | Some k \<Rightarrow> k) s")
       (auto simp: read_employees_def call_def split: sum.splits)
  subgoal
    by (cases "insert_employee db employee s")
       (auto simp: create_employee_def call_def split: sum.splits)
  subgoal
    by (cases "get_employee db i s")
       (auto simp: read_employee_def call_def split: sum.splits option.splits)
  subgoal
    by (cases "database_delete_employee db i s")
       (auto simp: delete_employee_def call_def split: sum.splits if_splits)
  subgoal
    by (cases "database_update_employee db i column v s")
       (auto simp: update_employee_def call_def split: sum.splits if_splits)
  subgoal
    by (cases rq)
       (auto simp: app_def respond_def read_employees_def read_employee_def create_employee_def
                   delete_employee_def update_employee_def call_def
             split: prod.splits sum.splits option.splits if_splits exn.splits)
  subgoal
    by (cases rq)
       (auto simp: app_def respond_def read_employees_def read_employee_def create_employee_def
                   delete_employee_def update_employee_def call_def
             split: prod.splits sum.splits option.splits if_splits exn.splits)
  subgoal
    by (cases rq; cases st)
       (auto simp: app_def respond_def read_employees_def read_employee_def create_employee_def
                   delete_employee_def update_employee_def call_def database_spec_simps
                   spec_get_employees_def spec_get_employee_def spec_insert_employee_def
                   spec_delete_employee_def spec_update_employee_def with_table_def set_column_def
                   list_ex_find
             split: option.splits if_splits)
  done

text \<open>
  The spec's scenario \<^verbatim>\<open>GET /employees/999\<close> on an empty table, and a delete and an update
  of the same absent id: each hypothesis of the theorem holds there.
\<close>

theorem not_found_is_the_only_http_error_witness:
  "fst (read_employee database_spec 999 (Some \<lparr>rows = [], next_id = 1\<rparr>))
     = Inl (HTTPException 404 ''Employee not found'')
   \<and> fst (delete_employee database_spec 999 (Some \<lparr>rows = [], next_id = 1\<rparr>))
     = Inl (HTTPException 404 ''Employee not found'')
   \<and> fst (update_employee database_spec 999 ''name'' ''Bea'' (Some \<lparr>rows = [], next_id = 1\<rparr>))
     = Inl (HTTPException 404 ''Employee not found'')
   \<and> fst (app database_spec (GET_employee 999) (Some \<lparr>rows = [], next_id = 1\<rparr>))
     = Response 404 (Object [(''detail'', ''Employee not found'')])
   \<and> fst (spec_get_employee 999 (Some \<lparr>rows = [], next_id = 1\<rparr>)) = Inr None
   \<and> fst (spec_delete_employee 999 (Some \<lparr>rows = [], next_id = 1\<rparr>)) = Inr False
   \<and> fst (spec_update_employee 999 ''name'' ''Bea'' (Some \<lparr>rows = [], next_id = 1\<rparr>)) = Inr False
   \<and> target (GET_employee 999) = Some 999
   \<and> \<not> list_ex (has_id 999) (rows \<lparr>rows = [], next_id = 1\<rparr>)"
proof -
  have get: "fst (read_employee database_spec 999 (Some \<lparr>rows = [], next_id = 1\<rparr>))
               = Inl (HTTPException 404 ''Employee not found'')"
    by (simp add: read_employee_def call_def database_spec_simps spec_get_employee_def with_table_def)
  have del: "fst (delete_employee database_spec 999 (Some \<lparr>rows = [], next_id = 1\<rparr>))
               = Inl (HTTPException 404 ''Employee not found'')"
    by (simp add: delete_employee_def call_def database_spec_simps spec_delete_employee_def
          with_table_def)
  have upd: "fst (update_employee database_spec 999 ''name'' ''Bea'' (Some \<lparr>rows = [], next_id = 1\<rparr>))
               = Inl (HTTPException 404 ''Employee not found'')"
    by (simp add: update_employee_def call_def database_spec_simps spec_update_employee_def
          with_table_def set_column_def)
  have rsp: "fst (app database_spec (GET_employee 999) (Some \<lparr>rows = [], next_id = 1\<rparr>))
               = Response 404 (Object [(''detail'', ''Employee not found'')])"
    using get by (simp add: app_def respond_def)
  show ?thesis
    using get del upd rsp
      not_found_is_the_only_http_error
        [of database_spec None None "Some \<lparr>rows = [], next_id = 1\<rparr>" 404 "''Employee not found''"
            "\<lparr>eid = None, name = ''Ann'', department = ''Eng''\<rparr>" 999 "''name''" "''Bea''"
            "GET_employee 999" "Object [(''detail'', ''Employee not found'')]"
            "Some \<lparr>rows = [], next_id = 1\<rparr>"]
    by (simp add: database_spec_simps)
qed

section \<open>List\<close>

text \<open>
  C6. For the list operation \<^verbatim>\<open>GET /employees/\<close>, a query parameter left out defaults to
  \<^verbatim>\<open>skip = 0\<close> and \<^verbatim>\<open>limit = 10\<close>; the handler makes the one call
  \<^verbatim>\<open>get_employees(skip, limit)\<close> and returns exactly the sequence that call produces, as
  the body of the HTTP 200 response; and for every number of records N, the sequence
  returned for \<^verbatim>\<open>limit = N\<close> by the Data Store of the spec holds at most N records. A
  number of records is not negative: \<open>0 \<le> n\<close> says that of the integer \<^verbatim>\<open>limit\<close>.
\<close>

theorem read_employees_defaults_and_bound:
  "read_employees db None None s = read_employees db (Some 0) (Some 10) s
   \<and> read_employees db None (Some limit) s = read_employees db (Some 0) (Some limit) s
   \<and> read_employees db (Some skip) None s = read_employees db (Some skip) (Some 10) s
   \<and> snd (snd (read_employees (traced db) None None (s, log))) = log @ [GetEmployees 0 10]
   \<and> snd (snd (read_employees (traced db) (Some skip) (Some limit) (s, log)))
       = log @ [GetEmployees skip limit]
   \<and> fst (read_employees db (Some skip) (Some limit) s)
       = (case fst (get_employees db skip limit s) of Inl x \<Rightarrow> Inl (Raised x) | Inr xs \<Rightarrow> Inr xs)
   \<and> fst (app db (GET_employees (Some skip) (Some limit)) s)
       = (case fst (get_employees db skip limit s) of
            Inl x \<Rightarrow> Response 500 (Text ''Internal Server Error'')
          | Inr xs \<Rightarrow> Response 200 (Employees xs))
   \<and> (0 \<le> n \<longrightarrow>
        (\<exists>xs. fst (read_employees database_spec sk (Some n) (Some t)) = Inr xs
              \<and> int (length xs) \<le> n))"
  apply (intro conjI)
  subgoal by (simp add: read_employees_def)
  subgoal by (simp add: read_employees_def)
  subgoal by (simp add: read_employees_def)
  subgoal
    by (cases "get_employees db 0 10 s")
       (auto simp: read_employees_def call_def traced_simps logged_def split: sum.splits)
  subgoal
    by (cases "get_employees db skip limit s")
       (auto simp: read_employees_def call_def traced_simps logged_def split: sum.splits)
  subgoal
    by (cases "get_employees db skip limit s")
       (auto simp: read_employees_def call_def split: sum.splits)
  subgoal
    by (cases "get_employees db skip limit s")
       (auto simp: app_def respond_def read_employees_def call_def split: sum.splits)
  subgoal
    by (auto simp: read_employees_def call_def database_spec_simps spec_get_employees_def
                   with_table_def
             split: option.splits)
  done

text \<open>Two rows in the table and \<^verbatim>\<open>limit = 1\<close>: one record is returned.\<close>

theorem read_employees_defaults_and_bound_witness:
  "(0::int) \<le> 1
   \<and> fst (read_employees database_spec None (Some 1)
        (Some \<lparr>rows = [\<lparr>eid = Some 1, name = ''Ann'', department = ''Eng''\<rparr>,
                       \<lparr>eid = Some 2, name = ''Bob'', department = ''Ops''\<rparr>], next_id = 3\<rparr>))
       = Inr [\<lparr>eid = Some 1, name = ''Ann'', department = ''Eng''\<rparr>]
   \<and> (\<exists>xs. fst (read_employees database_spec None (Some 1)
        (Some \<lparr>rows = [\<lparr>eid = Some 1, name = ''Ann'', department = ''Eng''\<rparr>,
                       \<lparr>eid = Some 2, name = ''Bob'', department = ''Ops''\<rparr>], next_id = 3\<rparr>)) = Inr xs
        \<and> int (length xs) \<le> 1)"
proof -
  have h: "(0::int) \<le> 1" by simp
  have v: "fst (read_employees database_spec None (Some 1)
        (Some \<lparr>rows = [\<lparr>eid = Some 1, name = ''Ann'', department = ''Eng''\<rparr>,
                       \<lparr>eid = Some 2, name = ''Bob'', department = ''Ops''\<rparr>], next_id = 3\<rparr>))
       = Inr [\<lparr>eid = Some 1, name = ''Ann'', department = ''Eng''\<rparr>]"
    by (simp add: read_employees_def call_def database_spec_simps spec_get_employees_def
          with_table_def)
  show ?thesis
    using h v
      read_employees_defaults_and_bound
        [of database_spec "Some \<lparr>rows = [], next_id = 1\<rparr>" 1 0 "[]" 1 None
            "\<lparr>rows = [\<lparr>eid = Some 1, name = ''Ann'', department = ''Eng''\<rparr>,
                      \<lparr>eid = Some 2, name = ''Bob'', department = ''Ops''\<rparr>], next_id = 3\<rparr>"]
    by simp
qed

section \<open>Delete, then get\<close>

text \<open>
  C7. On the Data Store of the spec, for every id and every table, whether or not the
  table holds a row with that id: deleting the id and then, with nothing in between,
  getting the same id yields the not-found outcome, the HTTP 404 with detail
  "Employee not found".
\<close>

theorem read_after_delete_not_found:
  "fst (read_employee database_spec i (snd (delete_employee database_spec i (Some t))))
     = Inl (HTTPException 404 ''Employee not found'')
   \<and> fst (app database_spec (GET_employee i) (snd (app database_spec (DELETE_employee i) (Some t))))
     = Response 404 (Object [(''detail'', ''Employee not found'')])"
  by (simp add: app_def respond_def read_employee_def delete_employee_def call_def
        database_spec_simps spec_get_employee_def spec_delete_employee_def with_table_def
        find_after_filter)

section \<open>Update of the name, then get\<close>

text \<open>
  C8. On the Data Store of the spec, for every id that the get-one operation finds, with
  record \<open>e\<close>, and every value \<open>v\<close>: the update of column \<^verbatim>\<open>name\<close> to \<open>v\<close> succeeds, and
  the get-one operation for the same id then yields a record whose name is \<open>v\<close> and
  whose department and id are those of \<open>e\<close>. What the get-one operation yields for any
  other id is unchanged.
\<close>

theorem read_after_update_name:
  assumes "fst (read_employee database_spec i (Some t)) = Inr e"
  shows "fst (update_employee database_spec i ''name'' v (Some t))
           = Inr [(''message'', ''Employee updated'')]
    \<and> (\<exists>e'. fst (read_employee database_spec i
                   (snd (update_employee database_spec i ''name'' v (Some t)))) = Inr e'
          \<and> name e' = v \<and> department e' = department e \<and> eid e' = eid e)
    \<and> (j \<noteq> i \<longrightarrow>
         fst (read_employee database_spec j (snd (update_employee database_spec i ''name'' v (Some t))))
           = fst (read_employee database_spec j (Some t)))"
proof -
  let ?g = "\<lambda>e. if has_id i e then e\<lparr>name := v\<rparr> else e"
  have found: "find (has_id i) (rows t) = Some e"
    using assms
    by (simp add: read_employee_def call_def database_spec_simps spec_get_employee_def
          with_table_def
        split: option.splits)
  then have ex: "list_ex (has_id i) (rows t)"
    by (simp add: list_ex_find)
  have after: "snd (update_employee database_spec i ''name'' v (Some t))
                 = Some (t\<lparr>rows := map ?g (rows t)\<rparr>)"
    by (simp add: update_employee_def call_def database_spec_simps spec_update_employee_def
          with_table_def set_column_def)
  have "has_id i e"
    using found by (rule find_has_id)
  then have "find (has_id i) (map ?g (rows t)) = Some (e\<lparr>name := v\<rparr>)"
    using found find_set_column [of "\<lambda>e. e\<lparr>name := v\<rparr>" i i "rows t"] by simp
  then have same: "fst (read_employee database_spec i (Some (t\<lparr>rows := map ?g (rows t)\<rparr>)))
                     = Inr (e\<lparr>name := v\<rparr>)"
    by (simp add: read_employee_def call_def database_spec_simps spec_get_employee_def
          with_table_def)
  have other: "fst (read_employee database_spec j (Some (t\<lparr>rows := map ?g (rows t)\<rparr>)))
                 = fst (read_employee database_spec j (Some t))" if "j \<noteq> i"
    using find_set_column_other [of "\<lambda>e. e\<lparr>name := v\<rparr>" j i "rows t"] that
    by (simp add: read_employee_def call_def database_spec_simps spec_get_employee_def
          with_table_def)
  have ok: "fst (update_employee database_spec i ''name'' v (Some t))
              = Inr [(''message'', ''Employee updated'')]"
    using ex
    by (simp add: update_employee_def call_def database_spec_simps spec_update_employee_def
          with_table_def set_column_def)
  show ?thesis
    using ok same other after by simp
qed

text \<open>Ann of Eng, id 1, is renamed Bea; Bob, id 2, is read as before.\<close>

theorem read_after_update_name_witness:
  "fst (read_employee database_spec 1
          (Some \<lparr>rows = [\<lparr>eid = Some 1, name = ''Ann'', department = ''Eng''\<rparr>,
                         \<lparr>eid = Some 2, name = ''Bob'', department = ''Ops''\<rparr>], next_id = 3\<rparr>))
     = Inr \<lparr>eid = Some 1, name = ''Ann'', department = ''Eng''\<rparr>
   \<and> (2::int) \<noteq> 1
   \<and> fst (update_employee database_spec 1 ''name'' ''Bea''
          (Some \<lparr>rows = [\<lparr>eid = Some 1, name = ''Ann'', department = ''Eng''\<rparr>,
                         \<lparr>eid = Some 2, name = ''Bob'', department = ''Ops''\<rparr>], next_id = 3\<rparr>))
     = Inr [(''message'', ''Employee updated'')]
   \<and> (\<exists>e'. fst (read_employee database_spec 1 (snd (update_employee database_spec 1 ''name'' ''Bea''
          (Some \<lparr>rows = [\<lparr>eid = Some 1, name = ''Ann'', department = ''Eng''\<rparr>,
                         \<lparr>eid = Some 2, name = ''Bob'', department = ''Ops''\<rparr>], next_id = 3\<rparr>))))
            = Inr e'
        \<and> name e' = ''Bea'' \<and> department e' = ''Eng'' \<and> eid e' = Some 1)
   \<and> fst (read_employee database_spec 2 (snd (update_employee database_spec 1 ''name'' ''Bea''
          (Some \<lparr>rows = [\<lparr>eid = Some 1, name = ''Ann'', department = ''Eng''\<rparr>,
                         \<lparr>eid = Some 2, name = ''Bob'', department = ''Ops''\<rparr>], next_id = 3\<rparr>))))
     = Inr \<lparr>eid = Some 2, name = ''Bob'', department = ''Ops''\<rparr>"
proof -
  have h: "fst (read_employee database_spec 1
          (Some \<lparr>rows = [\<lparr>eid = Some 1, name = ''Ann'', department = ''Eng''\<rparr>,
                         \<lparr>eid = Some 2, name = ''Bob'', department = ''Ops''\<rparr>], next_id = 3\<rparr>))
     = Inr \<lparr>eid = Some 1, name = ''Ann'', department = ''Eng''\<rparr>"
    by (simp add: read_employee_def call_def database_spec_simps spec_get_employee_def
          with_table_def has_id_def)
  have b: "fst (read_employee database_spec 2
          (Some \<lparr>rows = [\<lparr>eid = Some 1, name = ''Ann'', department = ''Eng''\<rparr>,
                         \<lparr>eid = Some 2, name = ''Bob'', department = ''Ops''\<rparr>], next_id = 3\<rparr>))
     = Inr \<lparr>eid = Some 2, name = ''Bob'', department = ''Ops''\<rparr>"
    by (simp add: read_employee_def call_def database_spec_simps spec_get_employee_def
          with_table_def has_id_def)
  show ?thesis
    using h b read_after_update_name [OF h, of "''Bea''" 2] by simp
qed

section \<open>Startup\<close>

text \<open>
  C9. The startup hook makes exactly one call into the database module,
  \<^verbatim>\<open>create_table\<close>. In a run of the process that call comes first, before the call of any
  request handler, and when it raises nothing is served; after the call of the last
  request there is no further call, no hook being registered for shutdown. On the Data
  Store of the spec the table exists once the startup hook has run, an existing table
  is left as it is, every request leaves the table in existence, and so every request
  of a run is answered on an existing table.
\<close>

theorem startup_event_creates_table:
  "snd (snd (startup_event (traced db) (s, log))) = log @ [CreateTable]
   \<and> fst (snd (startup_event (traced db) (s, log))) = snd (create_table db s)
   \<and> snd (snd (run (traced db) rqs (s, log)))
       = log @ (if isl (fst (create_table db s)) then [CreateTable]
                else CreateTable # map call_of rqs)
   \<and> (\<exists>t. startup_event database_spec st = (Inr (), Some t))
   \<and> startup_event database_spec (Some t0) = (Inr (), Some t0)
   \<and> (\<exists>r t'. app database_spec rq (Some t0) = (r, Some t'))
   \<and> (\<exists>rs t. run database_spec rqs st = (Inr rs, Some t) \<and> length rs = length rqs)"
proof -
  obtain r s' where ct: "create_table db s = (r, s')"
    by (cases "create_table db s")
  have a: "snd (snd (startup_event (traced db) (s, log))) = log @ [CreateTable]"
    using ct by (auto simp: startup_event_def call_def traced_simps logged_def split: sum.splits)
  have b: "fst (snd (startup_event (traced db) (s, log))) = snd (create_table db s)"
    using ct by (auto simp: startup_event_def call_def traced_simps logged_def split: sum.splits)
  have c: "snd (snd (run (traced db) rqs (s, log)))
             = log @ (if isl (fst (create_table db s)) then [CreateTable]
                      else CreateTable # map call_of rqs)"
    using ct serve_traced_log [of db rqs s' "log @ [CreateTable]"]
    by (auto simp: run_def startup_event_def call_def traced_simps logged_def split: sum.splits)
  obtain t where d: "startup_event database_spec st = (Inr (), Some t)"
    by (cases st) (auto simp: startup_event_def call_def database_spec_simps spec_create_table_def)
  have e: "startup_event database_spec (Some t0) = (Inr (), Some t0)"
    by (simp add: startup_event_def call_def database_spec_simps spec_create_table_def)
  obtain rs t' where f: "serve database_spec rqs (Some t) = (rs, Some t')" "length rs = length rqs"
    using serve_spec_keeps_table by blast
  have g: "run database_spec rqs st = (Inr rs, Some t')"
    using d f by (simp add: run_def)
  show ?thesis
    using a b c d e f(2) g app_spec_keeps_table [of rq t0] by simp
qed

end
